theory Spec2Isabelle
  imports Main "HOL-Library.Multiset"
begin

section \<open>Event media cache of google\_nest\_sdm (event\_media.py)\<close>

subsection \<open>Values handled by the manager\<close>

type_synonym instant = int
type_synonym bytes = string

text \<open>
  Modelled from the spec: the class ImageEventBase of module event is imported by
  event\_media.py but is not part of the sources. The record has the fields of the spec's
  EventRecord; the manager reads \<open>event_id\<close>, \<open>event_type\<close>, \<open>timestamp\<close>
  and \<open>expires_at\<close>.
\<close>

record event =
  event_id :: string
  event_session_id :: string
  event_type :: string
  timestamp :: instant
  expires_at :: instant

datatype event_image_type = IMAGE | CLIP_PREVIEW

text \<open>
  Exceptions are values. \<open>KeyError\<close> is what the OrderedDict operations raise,
  \<open>ValueError\<close> and \<open>TransportError\<close> are what the trait collaborator and the
  transport can raise while an image is generated or its contents are read.
\<close>

datatype error = KeyError string | ValueError string | TransportError

text \<open>
  Modelled from the spec: the class EventImage of module camera\_traits is not part of the
  sources. \<open>image_type\<close> is its property event\_image\_type, \<open>fetch_contents\<close> is the
  outcome of awaiting its method contents(): the bytes, or the error raised.
\<close>

record event_image =
  image_type :: event_image_type
  fetch_contents :: "error + bytes"

text \<open>
  Modelled from the spec: the trait collaborator EventImageGenerator of module
  camera\_traits is not part of the sources. A trait remembers the last event it was handed
  (\<open>last_event\<close>); \<open>image_for\<close> is the behaviour of its method generate\_event\_image
  (an image, nothing, or an error raised); \<open>image_requests\<close> logs the events for which
  that method was invoked, so that a fetch is observable in the model.
\<close>

record trait =
  last_event :: "event option"
  image_for :: "event \<Rightarrow> error + event_image option"
  image_requests :: "event list"

text \<open>
  Modelled from the spec: the method handle\_event of a trait, which is not part of the
  sources, records the event as the trait's current event.
\<close>

definition handle_event :: "trait \<Rightarrow> event \<Rightarrow> trait" where
  "handle_event t ev = t\<lparr>last_event := Some ev\<rparr>"

text \<open>
  Modelled from the spec: an event has expired once its expiration instant has passed
  relative to the clock reading \<open>now\<close>.
\<close>

definition is_expired :: "instant \<Rightarrow> event \<Rightarrow> bool" where
  "is_expired now ev = (expires_at ev < now)"

text \<open>
  Modelled from the spec: the property active\_event of a trait is its last event while that
  event has not expired relative to the clock reading \<open>now\<close>, which is an explicit input.
\<close>

definition active_event :: "instant \<Rightarrow> trait \<Rightarrow> event option" where
  "active_event now t =
     (case last_event t of
        None \<Rightarrow> None
      | Some ev \<Rightarrow> if is_expired now ev then None else Some ev)"

text \<open>
  Modelled from the spec: the method generate\_event\_image of a trait, which is not part of
  the sources, answers as \<open>image_for\<close> says; the request is logged.
\<close>

definition generate_event_image :: "trait \<Rightarrow> event \<Rightarrow> trait \<times> (error + event_image option)" where
  "generate_event_image t ev = (t\<lparr>image_requests := image_requests t @ [ev]\<rparr>, image_for t ev)"

subsection \<open>CachePolicy, Media, EventMedia\<close>

definition DEFAULT_CACHE_SIZE :: int where
  "DEFAULT_CACHE_SIZE = 2"

record cache_policy =
  event_cache_size :: int
  prefetch :: bool

definition CachePolicy :: cache_policy where
  "CachePolicy = \<lparr>event_cache_size = DEFAULT_CACHE_SIZE, prefetch = False\<rparr>"

record media =
  contents :: bytes
  event_image_type :: event_image_type

datatype event_media =
  EventMedia (media_event_id: string) (media_event_type: string)
    (event_timestamp: instant) (media: media)

subsection \<open>OrderedDict and dict\<close>

text \<open>
  A Python dict or OrderedDict is an association list in insertion order. Assigning to a key
  that is present replaces the value where it stands; assigning to a new key appends.
\<close>

fun setitem :: "'k \<Rightarrow> 'v \<Rightarrow> ('k \<times> 'v) list \<Rightarrow> ('k \<times> 'v) list" where
  "setitem k v [] = [(k, v)]"
| "setitem k v ((k', v') # d) =
     (if k' = k then (k, v) # d else (k', v') # setitem k v d)"

definition move_to_end :: "string \<Rightarrow> (string \<times> 'v) list \<Rightarrow> error + (string \<times> 'v) list" where
  "move_to_end k d =
     (case map_of d k of
        None \<Rightarrow> Inl (KeyError k)
      | Some v \<Rightarrow> Inr (filter (\<lambda>p. fst p \<noteq> k) d @ [(k, v)]))"

text \<open>\<open>popitem(last=False)\<close>: removes and returns the oldest item.\<close>

definition popitem_first :: "(string \<times> 'v) list \<Rightarrow> error + ((string \<times> 'v) \<times> (string \<times> 'v) list)" where
  "popitem_first d =
     (case d of
        [] \<Rightarrow> Inl (KeyError ''dictionary is empty'')
      | x # xs \<Rightarrow> Inr (x, xs))"

subsection \<open>EventMediaManager\<close>

record manager =
  event_trait_map :: "(string \<times> trait) list"
  cache_policy :: cache_policy
  data :: "(string \<times> event) list"

definition EventMediaManager :: "(string \<times> trait) list \<Rightarrow> manager" where
  "EventMediaManager tm = \<lparr>event_trait_map = tm, cache_policy = CachePolicy, data = []\<rparr>"

text \<open>
  Every operation returns the manager as the call leaves it, together with the value
  returned (\<open>Inr\<close>) or the exception raised (\<open>Inl\<close>). Events, traits and images
  are objects without a truth value of their own, so \<open>if not x\<close> tests for None.
\<close>

definition get_media :: "manager \<Rightarrow> string \<Rightarrow> manager \<times> (error + event_media option)" where
  "get_media m eid =
     (case map_of (data m) eid of
        None \<Rightarrow> (m, Inr None)
      | Some ev \<Rightarrow>
         (case move_to_end eid (data m) of
            Inl e \<Rightarrow> (m, Inl e)
          | Inr d \<Rightarrow>
             (let m1 = m\<lparr>data := d\<rparr> in
              case map_of (event_trait_map m1) (event_type ev) of
                None \<Rightarrow> (m1, Inr None)
              | Some generator \<Rightarrow>
                 (let (g, r) = generate_event_image generator ev;
                      m2 = m1\<lparr>event_trait_map :=
                                setitem (event_type ev) g (event_trait_map m1)\<rparr>
                  in case r of
                       Inl e \<Rightarrow> (m2, Inl e)
                     | Inr None \<Rightarrow> (m2, Inr None)
                     | Inr (Some event_image) \<Rightarrow>
                        (case fetch_contents event_image of
                           Inl e \<Rightarrow> (m2, Inl e)
                         | Inr c \<Rightarrow>
                            (m2, Inr (Some (EventMedia eid (event_type ev) (timestamp ev)
                               \<lparr>contents = c,
                                event_image_type = image_type event_image\<rparr>))))))))"

text \<open>
  \<open>events\<close>: the cached events by timestamp, latest first. Python's stable sort with
  \<open>reverse=True\<close> keeps the original order of equal keys.
\<close>

definition events :: "manager \<Rightarrow> event list" where
  "events m = rev (sort_key timestamp (rev (map snd (data m))))"

text \<open>The body of the loop of async\_handle\_events, for one item of the message.\<close>

definition handle_one :: "manager \<Rightarrow> string \<Rightarrow> event \<Rightarrow> manager \<times> (error + unit)" where
  "handle_one m event_name ev =
     (case map_of (event_trait_map m) event_name of
        None \<Rightarrow> (m, Inr ())
      | Some t \<Rightarrow>
         (let m1 = m\<lparr>event_trait_map :=
                        setitem event_name (handle_event t ev) (event_trait_map m),
                      data := setitem (event_id ev) ev (data m)\<rparr>
          in if int (length (data m1)) > event_cache_size (cache_policy m1)
             then (case popitem_first (data m1) of
                     Inl e \<Rightarrow> (m1, Inl e)
                   | Inr (_, d) \<Rightarrow> (m1\<lparr>data := d\<rparr>, Inr ()))
             else (m1, Inr ())))"

fun handle_loop :: "manager \<Rightarrow> (string \<times> event) list \<Rightarrow> manager \<times> (error + unit)" where
  "handle_loop m [] = (m, Inr ())"
| "handle_loop m ((event_name, ev) # rest) =
     (case handle_one m event_name ev of
        (m', Inl e) \<Rightarrow> (m', Inl e)
      | (m', Inr _) \<Rightarrow> handle_loop m' rest)"

text \<open>
  An EventMessage is read through its property resource\_update\_events only: the items of
  a dict from event names to events, or None.
\<close>

record event_message =
  resource_update_events :: "(string \<times> event) list option"

definition async_handle_events :: "manager \<Rightarrow> event_message \<Rightarrow> manager \<times> (error + unit)" where
  "async_handle_events m event_message =
     (case resource_update_events event_message of
        None \<Rightarrow> (m, Inr ())
      | Some [] \<Rightarrow> (m, Inr ())
      | Some evs \<Rightarrow> handle_loop m evs)"

text \<open>A message that carries one event under one event name.\<close>

definition single :: "string \<Rightarrow> event \<Rightarrow> event_message" where
  "single event_name ev = \<lparr>resource_update_events = Some [(event_name, ev)]\<rparr>"

text \<open>The property active\_event\_trait: one pass over the traits, in the dict's order.\<close>

definition pick_trait :: "instant \<Rightarrow> trait option \<Rightarrow> trait \<Rightarrow> trait option" where
  "pick_trait now trait_to_return t =
     (if active_event now t = None then trait_to_return
      else case trait_to_return of
             None \<Rightarrow> Some t
           | Some r \<Rightarrow>
              (case last_event t of
                 None \<Rightarrow> Some r
               | Some ev \<Rightarrow>
                  (case last_event r of
                     None \<Rightarrow> Some r
                   | Some ev' \<Rightarrow>
                      if expires_at ev > expires_at ev' then Some t else Some r)))"

definition active_event_trait :: "instant \<Rightarrow> manager \<Rightarrow> trait option" where
  "active_event_trait now m = foldl (pick_trait now) None (map snd (event_trait_map m))"

text \<open>
  What the generators of the device have been asked for so far, trait by trait: the fetches
  that the manager has caused.
\<close>

definition fetch_log :: "manager \<Rightarrow> event list list" where
  "fetch_log m = map (\<lambda>p. image_requests (snd p)) (event_trait_map m)"

subsection \<open>Sequences of calls\<close>

text \<open>
  What a caller can do to a manager between and around ingestions: hand it a message, assign
  to the policy's event\_cache\_size or prefetch, ask for media.
\<close>

datatype call =
  HandleEvents event_message
  | SetEventCacheSize int
  | SetPrefetch bool
  | GetMedia string

fun do_call :: "manager \<Rightarrow> call \<Rightarrow> manager" where
  "do_call m (HandleEvents msg) = fst (async_handle_events m msg)"
| "do_call m (SetEventCacheSize n) = m\<lparr>cache_policy := (cache_policy m)\<lparr>event_cache_size := n\<rparr>\<rparr>"
| "do_call m (SetPrefetch b) = m\<lparr>cache_policy := (cache_policy m)\<lparr>prefetch := b\<rparr>\<rparr>"
| "do_call m (GetMedia eid) = fst (get_media m eid)"

definition run :: "manager \<Rightarrow> call list \<Rightarrow> manager" where
  "run m cs = foldl do_call m cs"

definition within_bound :: "manager \<Rightarrow> bool" where
  "within_bound m = (int (length (data m)) \<le> event_cache_size (cache_policy m))"

text \<open>
  A call that leaves the cache policy alone: an ingestion or a request for media.
\<close>

fun keeps_policy :: "call \<Rightarrow> bool" where
  "keeps_policy (SetEventCacheSize _) = False"
| "keeps_policy (SetPrefetch _) = False"
| "keeps_policy _ = True"

subsection \<open>Sample values\<close>

text \<open>
  A device with one trait under the event name Motion, whose generator yields a JPEG image
  for every event, and events that expire 30 time units after their timestamp.
\<close>

definition sample_trait :: trait where
  "sample_trait =
     \<lparr>last_event = None,
      image_for = (\<lambda>ev. Inr (Some \<lparr>image_type = IMAGE, fetch_contents = Inr ''image-bytes-1''\<rparr>)),
      image_requests = []\<rparr>"

definition sample_event :: "string \<Rightarrow> string \<Rightarrow> instant \<Rightarrow> event" where
  "sample_event eid sid ts =
     \<lparr>event_id = eid, event_session_id = sid, event_type = ''Motion'',
      timestamp = ts, expires_at = ts + 30\<rparr>"

text \<open>
  A trait whose image cannot be downloaded (the transport fails), and a trait of a device
  without media support, whose generator raises.
\<close>

definition failing_trait :: trait where
  "failing_trait =
     \<lparr>last_event = None,
      image_for = (\<lambda>ev. Inr (Some \<lparr>image_type = IMAGE, fetch_contents = Inl TransportError\<rparr>)),
      image_requests = []\<rparr>"

definition unsupported_trait :: trait where
  "unsupported_trait =
     \<lparr>last_event = None,
      image_for = (\<lambda>ev. Inl (ValueError ''Camera does not have trait'')),
      image_requests = []\<rparr>"

text \<open>
  A device with three traits: Motion holds an event that expires at 40, Person an event
  received earlier that expires at 50, Sound has seen no event.
\<close>

definition motion_trait :: trait where
  "motion_trait = sample_trait\<lparr>last_event := Some (sample_event ''A'' ''sA'' 10)\<rparr>"

definition person_trait :: trait where
  "person_trait =
     sample_trait\<lparr>last_event := Some ((sample_event ''B'' ''sB'' 5)\<lparr>expires_at := 50\<rparr>)\<rparr>"

definition sample_device :: manager where
  "sample_device =
     EventMediaManager
       [(''Motion'', motion_trait), (''Person'', person_trait), (''Sound'', sample_trait)]"

section \<open>Properties\<close>

subsection \<open>Dict operations\<close>

lemma setitem_not_Nil: "setitem k v d \<noteq> []"
  by (cases d) (auto split: if_splits)

lemma length_setitem:
  "length (setitem k v d) = (if k \<in> fst ` set d then length d else Suc (length d))"
  by (induction d) force+

lemma map_fst_setitem:
  "map fst (setitem k v d) = (if k \<in> fst ` set d then map fst d else map fst d @ [k])"
  by (induction d) force+

lemma map_of_setitem: "map_of (setitem k v d) = (map_of d)(k \<mapsto> v)"
  by (induction d) (auto simp: fun_upd_twist)

lemma popitem_first_setitem:
  "popitem_first (setitem k v d) = Inr (hd (setitem k v d), tl (setitem k v d))"
  by (cases "setitem k v d") (simp_all add: popitem_first_def setitem_not_Nil)

lemma handle_one_skip:
  "map_of (event_trait_map m) n = None \<Longrightarrow> handle_one m n ev = (m, Inr ())"
  by (simp add: handle_one_def)

lemma handle_one_store:
  "map_of (event_trait_map m) n = Some t \<Longrightarrow>
   handle_one m n ev =
     (m\<lparr>event_trait_map := setitem n (handle_event t ev) (event_trait_map m),
        data := (if int (length (setitem (event_id ev) ev (data m))) > event_cache_size (cache_policy m)
                 then tl (setitem (event_id ev) ev (data m))
                 else setitem (event_id ev) ev (data m))\<rparr>, Inr ())"
  by (simp add: handle_one_def Let_def popitem_first_setitem)

lemma handle_one_ok: "snd (handle_one m n ev) = Inr ()"
  by (cases "map_of (event_trait_map m) n") (simp_all add: handle_one_skip handle_one_store)

lemma handle_one_policy: "cache_policy (fst (handle_one m n ev)) = cache_policy m"
  by (cases "map_of (event_trait_map m) n") (simp_all add: handle_one_skip handle_one_store)

lemma handle_one_keys:
  "map fst (event_trait_map (fst (handle_one m n ev))) = map fst (event_trait_map m)"
proof (cases "map_of (event_trait_map m) n")
  case None
  then show ?thesis by (simp add: handle_one_skip)
next
  case (Some t)
  then have "n \<in> fst ` set (event_trait_map m)"
    by (metis map_of_eq_None_iff option.distinct(1))
  with Some show ?thesis by (simp add: handle_one_store map_fst_setitem)
qed

lemma handle_one_length:
  "int (length (data (fst (handle_one m n ev))))
     \<le> max (int (length (data m))) (event_cache_size (cache_policy m))"
  by (cases "map_of (event_trait_map m) n")
     (auto simp: handle_one_skip handle_one_store length_setitem)

lemma handle_loop_ok: "snd (handle_loop m evs) = Inr ()"
proof (induction evs arbitrary: m)
  case Nil
  show ?case by simp
next
  case (Cons p evs)
  obtain n ev where p: "p = (n, ev)" by (cases p)
  obtain m' r where h: "handle_one m n ev = (m', r)" by (cases "handle_one m n ev")
  with handle_one_ok[of m n ev] have "r = Inr ()" by simp
  with Cons p h show ?case by simp
qed

lemma handle_loop_policy: "cache_policy (fst (handle_loop m evs)) = cache_policy m"
proof (induction evs arbitrary: m)
  case Nil
  show ?case by simp
next
  case (Cons p evs)
  obtain n ev where p: "p = (n, ev)" by (cases p)
  obtain m' r where h: "handle_one m n ev = (m', r)" by (cases "handle_one m n ev")
  with handle_one_ok[of m n ev] have r: "r = Inr ()" by simp
  from h handle_one_policy[of m n ev] have "cache_policy m' = cache_policy m" by simp
  with Cons[of m'] p h r show ?case by simp
qed

lemma handle_loop_length:
  "int (length (data (fst (handle_loop m evs)))) \<le> max (int (length (data m))) (event_cache_size (cache_policy m))"
proof (induction evs arbitrary: m)
  case Nil
  show ?case by simp
next
  case (Cons p evs)
  obtain n ev where p: "p = (n, ev)" by (cases p)
  obtain m' r where h: "handle_one m n ev = (m', r)" by (cases "handle_one m n ev")
  with handle_one_ok[of m n ev] have r: "r = Inr ()" by simp
  from h handle_one_policy[of m n ev] have pol: "cache_policy m' = cache_policy m" by simp
  from h handle_one_length[of m n ev]
  have len: "int (length (data m')) \<le> max (int (length (data m))) (event_cache_size (cache_policy m))" by simp
  from Cons[of m'] pol len p h r show ?case by simp
qed

lemma handle_loop_keys:
  "map fst (event_trait_map (fst (handle_loop m evs))) = map fst (event_trait_map m)"
proof (induction evs arbitrary: m)
  case Nil
  show ?case by simp
next
  case (Cons p evs)
  obtain n ev where p: "p = (n, ev)" by (cases p)
  obtain m' r where h: "handle_one m n ev = (m', r)" by (cases "handle_one m n ev")
  with handle_one_ok[of m n ev] have r: "r = Inr ()" by simp
  from h handle_one_keys[of m n ev]
  have "map fst (event_trait_map m') = map fst (event_trait_map m)" by simp
  with Cons[of m'] p h r show ?case by simp
qed

lemma async_handle_events_loop:
  "async_handle_events m msg =
     (case resource_update_events msg of None \<Rightarrow> (m, Inr ()) | Some evs \<Rightarrow> handle_loop m evs)"
  by (simp add: async_handle_events_def split: option.splits list.splits)

lemma async_handle_events_ok: "snd (async_handle_events m msg) = Inr ()"
  by (simp add: async_handle_events_loop handle_loop_ok split: option.splits)

lemma async_handle_events_policy:
  "cache_policy (fst (async_handle_events m msg)) = cache_policy m"
  by (simp add: async_handle_events_loop handle_loop_policy split: option.splits)

lemma async_handle_events_keys:
  "map fst (event_trait_map (fst (async_handle_events m msg))) = map fst (event_trait_map m)"
  by (simp add: async_handle_events_loop handle_loop_keys split: option.splits)

lemma async_handle_events_length:
  "int (length (data (fst (async_handle_events m msg))))
     \<le> max (int (length (data m))) (event_cache_size (cache_policy m))"
  by (simp add: async_handle_events_loop handle_loop_length split: option.splits)

lemma length_move_to_end:
  "move_to_end k d = Inr d' \<Longrightarrow> length d' \<le> length d"
proof -
  assume a: "move_to_end k d = Inr d'"
  then obtain v where v: "map_of d k = Some v" and d': "d' = filter (\<lambda>p. fst p \<noteq> k) d @ [(k, v)]"
    by (auto simp: move_to_end_def split: option.splits)
  from v have "(k, v) \<in> set d" by (rule map_of_SomeD)
  then have "length (filter (\<lambda>p. fst p \<noteq> k) d) < length d"
    by (intro length_filter_less[of "(k, v)"]) auto
  with d' show ?thesis by simp
qed

lemma move_to_end_present:
  "map_of d k = Some v \<Longrightarrow> move_to_end k d = Inr (filter (\<lambda>p. fst p \<noteq> k) d @ [(k, v)])"
  by (simp add: move_to_end_def)

lemma get_media_absent: "map_of (data m) k = None \<Longrightarrow> get_media m k = (m, Inr None)"
  by (simp add: get_media_def)

lemma get_media_data:
  "map_of (data m) k = Some ev \<Longrightarrow>
   data (fst (get_media m k)) = filter (\<lambda>p. fst p \<noteq> k) (data m) @ [(k, ev)]"
  by (simp add: get_media_def move_to_end_present Let_def generate_event_image_def
      split: option.splits sum.splits prod.splits)

lemma get_media_policy: "cache_policy (fst (get_media m k)) = cache_policy m"
  by (simp add: get_media_def move_to_end_def Let_def generate_event_image_def
      split: option.splits sum.splits prod.splits)

lemma map_of_Some_key: "map_of d k = Some v \<Longrightarrow> k \<in> fst ` set d"
  by (metis map_of_eq_None_iff option.distinct(1))

lemma get_media_keys:
  "map fst (event_trait_map (fst (get_media m k))) = map fst (event_trait_map m)"
  by (auto simp: get_media_def move_to_end_def Let_def generate_event_image_def map_fst_setitem
      dest: map_of_Some_key
      split: option.splits sum.splits prod.splits)

lemma get_media_length: "length (data (fst (get_media m k))) \<le> length (data m)"
proof (cases "map_of (data m) k")
  case None
  then show ?thesis by (simp add: get_media_absent)
next
  case (Some ev)
  from length_move_to_end[OF move_to_end_present[OF Some]] get_media_data[OF Some]
  show ?thesis by simp
qed

subsection \<open>Sequences of calls\<close>

lemmas eval_defs = run_def EventMediaManager_def CachePolicy_def DEFAULT_CACHE_SIZE_def
  single_def sample_event_def async_handle_events_def handle_one_def handle_event_def
  popitem_first_def within_bound_def Let_def sample_trait_def get_media_def move_to_end_def
  generate_event_image_def

lemma do_call_policy_kept:
  "keeps_policy c \<Longrightarrow> cache_policy (do_call m c) = cache_policy m"
  by (cases c) (simp_all add: async_handle_events_policy get_media_policy)

lemma do_call_length:
  "int (length (data (do_call m c))) \<le> max (int (length (data m))) (event_cache_size (cache_policy m))"
proof (cases c)
  case (HandleEvents msg)
  then show ?thesis using async_handle_events_length[of m msg] by simp
next
  case (GetMedia k)
  then show ?thesis using get_media_length[of m k] by simp
qed simp_all

lemma run_policy_kept:
  "list_all keeps_policy cs \<Longrightarrow>
   cache_policy (run m cs) = cache_policy m \<and>
   int (length (data (run m cs))) \<le> max (int (length (data m))) (event_cache_size (cache_policy m))"
proof (induction cs arbitrary: m)
  case Nil
  show ?case by (simp add: run_def)
next
  case (Cons c cs)
  then have k: "keeps_policy c" and ks: "list_all keeps_policy cs" by simp_all
  have r: "run m (c # cs) = run (do_call m c) cs" by (simp add: run_def)
  from Cons.IH[OF ks, of "do_call m c"] do_call_policy_kept[OF k, of m] do_call_length[of m c]
  show ?case unfolding r by (auto simp: max_def split: if_splits)
qed

subsection \<open>Ingesting one event\<close>

lemma setitem_new: "k \<notin> fst ` set d \<Longrightarrow> setitem k v d = d @ [(k, v)]"
  by (induction d) auto

lemma key_has_trait: "n \<in> fst ` set tm \<Longrightarrow> \<exists>t. map_of tm n = Some t"
  by (cases "map_of tm n") (simp_all add: map_of_eq_None_iff)


lemma map_of_setitem_same: "map_of (setitem k v d) k = Some v"
  by (simp add: map_of_setitem)

lemma ingest_single:
  assumes "n \<in> fst ` set (event_trait_map m)"
  shows "data (fst (async_handle_events m (single n ev))) =
     (if int (length (setitem (event_id ev) ev (data m))) > event_cache_size (cache_policy m)
      then tl (setitem (event_id ev) ev (data m))
      else setitem (event_id ev) ev (data m))"
proof -
  from key_has_trait[OF assms] obtain t where t: "map_of (event_trait_map m) n = Some t" ..
  show ?thesis
    by (simp add: async_handle_events_def single_def handle_one_store[OF t])
qed

lemma do_call_keys: "fst ` set (event_trait_map (do_call m c)) = fst ` set (event_trait_map m)"
proof -
  have "map fst (event_trait_map (do_call m c)) = map fst (event_trait_map m)"
    by (cases c) (simp_all add: async_handle_events_keys get_media_keys)
  then have "set (map fst (event_trait_map (do_call m c))) = set (map fst (event_trait_map m))"
    by simp
  then show ?thesis by simp
qed


lemma ingest_existing:
  assumes n: "n \<in> fst ` set (event_trait_map m)"
    and old: "event_id ev \<in> fst ` set (data m)"
    and wb: "within_bound m"
  shows "data (fst (async_handle_events m (single n ev))) = setitem (event_id ev) ev (data m)"
proof -
  from old have "length (setitem (event_id ev) ev (data m)) = length (data m)"
    by (simp add: length_setitem)
  moreover from wb have "int (length (data m)) \<le> event_cache_size (cache_policy m)"
    by (simp add: within_bound_def)
  ultimately show ?thesis by (simp add: ingest_single[OF n])
qed

lemma ingest_new:
  assumes n: "n \<in> fst ` set (event_trait_map m)"
    and new: "event_id ev \<notin> fst ` set (data m)"
    and big: "1 \<le> event_cache_size (cache_policy m)"
  shows "\<exists>pre. data (fst (async_handle_events m (single n ev))) = pre @ [(event_id ev, ev)] \<and>
           event_id ev \<notin> fst ` set pre"
proof -
  from new have d: "setitem (event_id ev) ev (data m) = data m @ [(event_id ev, ev)]"
    by (rule setitem_new)
  have dm: "data (fst (async_handle_events m (single n ev))) =
      (if int (length (data m @ [(event_id ev, ev)])) > event_cache_size (cache_policy m)
       then tl (data m @ [(event_id ev, ev)]) else data m @ [(event_id ev, ev)])"
    using ingest_single[OF n, of ev] by (simp only: d)
  show ?thesis
  proof (cases "int (length (data m @ [(event_id ev, ev)])) > event_cache_size (cache_policy m)")
    case True
    with big obtain p ps where ps: "data m = p # ps" by (cases "data m") auto
    with new have "event_id ev \<notin> fst ` set ps" by auto
    moreover from True dm ps
    have "data (fst (async_handle_events m (single n ev))) = ps @ [(event_id ev, ev)]"
      by simp
    ultimately show ?thesis by blast
  next
    case False
    with dm have "data (fst (async_handle_events m (single n ev))) = data m @ [(event_id ev, ev)]"
      by simp
    with new show ?thesis by blast
  qed
qed

lemma ingested_present:
  assumes n: "n \<in> fst ` set (event_trait_map m)"
    and big: "1 \<le> event_cache_size (cache_policy m)"
    and wb: "within_bound m"
  shows "map_of (data (fst (async_handle_events m (single n ev)))) (event_id ev) = Some ev"
proof (cases "event_id ev \<in> fst ` set (data m)")
  case True
  show ?thesis unfolding ingest_existing[OF n True wb] by (rule map_of_setitem_same)
next
  case False
  from ingest_new[OF n False big] obtain pre where
    pre: "data (fst (async_handle_events m (single n ev))) = pre @ [(event_id ev, ev)]"
    and notin: "event_id ev \<notin> fst ` set pre" by blast
  from notin have "map_of pre (event_id ev) = None" by (simp add: map_of_eq_None_iff)
  then show ?thesis unfolding pre by (simp add: map_add_def)
qed

lemma run_Cons: "run m (c # cs) = run (do_call m c) cs"
  by (simp add: run_def)

lemma run_Nil: "run m [] = m"
  by (simp add: run_def)

lemma set_events: "set (events m) = snd ` set (data m)"
  by (simp add: events_def)

lemma get_media_result:
  assumes "map_of (data m) k = Some ev"
  shows "snd (get_media m k) =
     (case map_of (event_trait_map m) (event_type ev) of
        None \<Rightarrow> Inr None
      | Some g \<Rightarrow>
         (case image_for g ev of
            Inl e \<Rightarrow> Inl e
          | Inr None \<Rightarrow> Inr None
          | Inr (Some img) \<Rightarrow>
             (case fetch_contents img of
                Inl e \<Rightarrow> Inl e
              | Inr c \<Rightarrow> Inr (Some (EventMedia k (event_type ev) (timestamp ev)
                            \<lparr>contents = c, event_image_type = image_type img\<rparr>)))))"
  using assms
  by (simp add: get_media_def move_to_end_present Let_def generate_event_image_def
      split: option.splits sum.splits prod.splits)

subsection \<open>The bound on the number of cached events\<close>

text \<open>
  C1. The number of cached events is to be at most event\_cache\_size when an ingestion
  returns, also after the size has been decreased. The code at a decrease: three events are
  cached under event\_cache\_size 3, the size is set to 1 and further events are ingested.
  Each ingestion evicts one entry for the one it stores, so three events stay cached under a
  size of 1, after the first ingestion and after every later one.
\<close>

theorem shrink_not_enforced:
  "event_cache_size (cache_policy (run (EventMediaManager [(''Motion'', sample_trait)])
      [SetEventCacheSize 3,
       HandleEvents (single ''Motion'' (sample_event ''A'' ''sA'' 1)),
       HandleEvents (single ''Motion'' (sample_event ''B'' ''sB'' 2)),
       HandleEvents (single ''Motion'' (sample_event ''C'' ''sC'' 3)),
       SetEventCacheSize 1,
       HandleEvents (single ''Motion'' (sample_event ''D'' ''sD'' 4))])) = 1 \<and>
   map fst (data (run (EventMediaManager [(''Motion'', sample_trait)])
      [SetEventCacheSize 3,
       HandleEvents (single ''Motion'' (sample_event ''A'' ''sA'' 1)),
       HandleEvents (single ''Motion'' (sample_event ''B'' ''sB'' 2)),
       HandleEvents (single ''Motion'' (sample_event ''C'' ''sC'' 3)),
       SetEventCacheSize 1,
       HandleEvents (single ''Motion'' (sample_event ''D'' ''sD'' 4))])) = [''B'', ''C'', ''D''] \<and>
   \<not> within_bound (run (EventMediaManager [(''Motion'', sample_trait)])
      [SetEventCacheSize 3,
       HandleEvents (single ''Motion'' (sample_event ''A'' ''sA'' 1)),
       HandleEvents (single ''Motion'' (sample_event ''B'' ''sB'' 2)),
       HandleEvents (single ''Motion'' (sample_event ''C'' ''sC'' 3)),
       SetEventCacheSize 1,
       HandleEvents (single ''Motion'' (sample_event ''D'' ''sD'' 4))]) \<and>
   map fst (data (run (EventMediaManager [(''Motion'', sample_trait)])
      [SetEventCacheSize 3,
       HandleEvents (single ''Motion'' (sample_event ''A'' ''sA'' 1)),
       HandleEvents (single ''Motion'' (sample_event ''B'' ''sB'' 2)),
       HandleEvents (single ''Motion'' (sample_event ''C'' ''sC'' 3)),
       SetEventCacheSize 1,
       HandleEvents (single ''Motion'' (sample_event ''D'' ''sD'' 4)),
       HandleEvents (single ''Motion'' (sample_event ''E'' ''sE'' 5)),
       HandleEvents (single ''Motion'' (sample_event ''F'' ''sF'' 6))])) = [''D'', ''E'', ''F'']"
  by (simp add: eval_defs)

text \<open>
  C10. A newly constructed manager has a policy with event\_cache\_size 2 and prefetch
  False and an empty cache; over every sequence of ingestions and requests for media that
  leaves the policy alone, the policy stays so and at most 2 events are cached.
\<close>

theorem fresh_manager_defaults:
  "cache_policy (EventMediaManager tm) = \<lparr>event_cache_size = 2, prefetch = False\<rparr> \<and>
   data (EventMediaManager tm) = [] \<and>
   (list_all keeps_policy cs \<longrightarrow>
      cache_policy (run (EventMediaManager tm) cs) = \<lparr>event_cache_size = 2, prefetch = False\<rparr> \<and>
      length (data (run (EventMediaManager tm) cs)) \<le> 2)"
proof -
  have init: "cache_policy (EventMediaManager tm) = \<lparr>event_cache_size = 2, prefetch = False\<rparr>"
    "data (EventMediaManager tm) = []"
    by (simp_all add: EventMediaManager_def CachePolicy_def DEFAULT_CACHE_SIZE_def)
  show ?thesis
  proof (intro conjI impI)
    assume ks: "list_all keeps_policy cs"
    from run_policy_kept[OF ks, of "EventMediaManager tm"] init
    show "cache_policy (run (EventMediaManager tm) cs) = \<lparr>event_cache_size = 2, prefetch = False\<rparr>"
      and "length (data (run (EventMediaManager tm) cs)) \<le> 2"
      by simp_all
  qed (simp_all add: init)
qed

theorem fresh_manager_defaults_witness:
  "list_all keeps_policy
     [HandleEvents (single ''Motion'' (sample_event ''A'' ''sA'' 1)),
      HandleEvents (single ''Motion'' (sample_event ''B'' ''sB'' 2)),
      GetMedia ''A'',
      HandleEvents (single ''Motion'' (sample_event ''C'' ''sC'' 3))] \<and>
   map fst (data (run (EventMediaManager [(''Motion'', sample_trait)])
     [HandleEvents (single ''Motion'' (sample_event ''A'' ''sA'' 1)),
      HandleEvents (single ''Motion'' (sample_event ''B'' ''sB'' 2)),
      GetMedia ''A'',
      HandleEvents (single ''Motion'' (sample_event ''C'' ''sC'' 3))])) = [''A'', ''C''] \<and>
   length (data (run (EventMediaManager [(''Motion'', sample_trait)])
     [HandleEvents (single ''Motion'' (sample_event ''A'' ''sA'' 1)),
      HandleEvents (single ''Motion'' (sample_event ''B'' ''sB'' 2)),
      GetMedia ''A'',
      HandleEvents (single ''Motion'' (sample_event ''C'' ''sC'' 3))])) \<le> 2"
  using fresh_manager_defaults[of "[(''Motion'', sample_trait)]"
     "[HandleEvents (single ''Motion'' (sample_event ''A'' ''sA'' 1)),
      HandleEvents (single ''Motion'' (sample_event ''B'' ''sB'' 2)),
      GetMedia ''A'',
      HandleEvents (single ''Motion'' (sample_event ''C'' ''sC'' 3))]"]
  by (simp add: eval_defs)

subsection \<open>Least recently used first\<close>

text \<open>
  C2 (as amended). The cache is keyed by event\_id, not by the session identifier. With
  event\_cache\_size 2 and four events a, b, c, d with pairwise different event ids, each
  delivered under an event name of the device: after a, b, c have been ingested in this order
  the cache holds exactly b and c, and so does the listing of events; after get\_media called
  with the event id of b and the ingestion of d it holds exactly b and d, c having been
  evicted.
\<close>

theorem lru_example:
  assumes names: "na \<in> fst ` set tm" "nb \<in> fst ` set tm" "nc \<in> fst ` set tm" "nd \<in> fst ` set tm"
    and ids: "distinct [event_id a, event_id b, event_id c, event_id d]"
  shows "data (run (EventMediaManager tm)
            [SetEventCacheSize 2, HandleEvents (single na a), HandleEvents (single nb b),
             HandleEvents (single nc c)]) = [(event_id b, b), (event_id c, c)] \<and>
         set (events (run (EventMediaManager tm)
            [SetEventCacheSize 2, HandleEvents (single na a), HandleEvents (single nb b),
             HandleEvents (single nc c)])) = {b, c} \<and>
         data (run (EventMediaManager tm)
            [SetEventCacheSize 2, HandleEvents (single na a), HandleEvents (single nb b),
             HandleEvents (single nc c), GetMedia (event_id b), HandleEvents (single nd d)])
           = [(event_id b, b), (event_id d, d)] \<and>
         set (events (run (EventMediaManager tm)
            [SetEventCacheSize 2, HandleEvents (single na a), HandleEvents (single nb b),
             HandleEvents (single nc c), GetMedia (event_id b), HandleEvents (single nd d)]))
           = {b, d}"
proof -
  define m0 where "m0 = do_call (EventMediaManager tm) (SetEventCacheSize 2)"
  define m1 where "m1 = do_call m0 (HandleEvents (single na a))"
  define m2 where "m2 = do_call m1 (HandleEvents (single nb b))"
  define m3 where "m3 = do_call m2 (HandleEvents (single nc c))"
  define m4 where "m4 = do_call m3 (GetMedia (event_id b))"
  define m5 where "m5 = do_call m4 (HandleEvents (single nd d))"
  have k0: "fst ` set (event_trait_map m0) = fst ` set tm"
    by (simp add: m0_def EventMediaManager_def)
  have k1: "fst ` set (event_trait_map m1) = fst ` set tm"
    unfolding m1_def do_call_keys by (rule k0)
  have k2: "fst ` set (event_trait_map m2) = fst ` set tm"
    unfolding m2_def do_call_keys by (rule k1)
  have k3: "fst ` set (event_trait_map m3) = fst ` set tm"
    unfolding m3_def do_call_keys by (rule k2)
  have k4: "fst ` set (event_trait_map m4) = fst ` set tm"
    unfolding m4_def do_call_keys by (rule k3)
  have s0: "event_cache_size (cache_policy m0) = 2" by (simp add: m0_def)
  have s1: "event_cache_size (cache_policy m1) = 2"
    by (simp add: m1_def async_handle_events_policy s0)
  have s2: "event_cache_size (cache_policy m2) = 2"
    by (simp add: m2_def async_handle_events_policy s1)
  have s3: "event_cache_size (cache_policy m3) = 2"
    by (simp add: m3_def async_handle_events_policy s2)
  have s4: "event_cache_size (cache_policy m4) = 2"
    by (simp add: m4_def get_media_policy s3)
  have d0: "data m0 = []" by (simp add: m0_def EventMediaManager_def)
  have d1: "data m1 = [(event_id a, a)]"
    using names(1) by (simp add: m1_def ingest_single k0 s0 d0)
  have d2: "data m2 = [(event_id a, a), (event_id b, b)]"
    using names(2) ids by (simp add: m2_def ingest_single k1 s1 d1)
  have d3: "data m3 = [(event_id b, b), (event_id c, c)]"
    using names(3) ids by (simp add: m3_def ingest_single k2 s2 d2)
  have "map_of (data m3) (event_id b) = Some b" by (simp add: d3)
  from get_media_data[OF this] ids
  have d4: "data m4 = [(event_id c, c), (event_id b, b)]" by (auto simp: m4_def d3)
  have d5: "data m5 = [(event_id b, b), (event_id d, d)]"
    using names(4) ids by (simp add: m5_def ingest_single k4 s4 d4)
  have r3: "run (EventMediaManager tm)
            [SetEventCacheSize 2, HandleEvents (single na a), HandleEvents (single nb b),
             HandleEvents (single nc c)] = m3"
    by (simp only: run_Cons run_Nil m0_def m1_def m2_def m3_def)
  have r5: "run (EventMediaManager tm)
            [SetEventCacheSize 2, HandleEvents (single na a), HandleEvents (single nb b),
             HandleEvents (single nc c), GetMedia (event_id b), HandleEvents (single nd d)] = m5"
    by (simp only: run_Cons run_Nil m0_def m1_def m2_def m3_def m4_def m5_def)
  show ?thesis unfolding r3 r5 by (simp add: set_events d3 d5)
qed

theorem lru_example_witness:
  "''Motion'' \<in> fst ` set [(''Motion'', sample_trait)] \<and>
   distinct [event_id (sample_event ''A'' ''sA'' 1), event_id (sample_event ''B'' ''sB'' 2),
      event_id (sample_event ''C'' ''sC'' 3), event_id (sample_event ''D'' ''sD'' 4)] \<and>
   data (run (EventMediaManager [(''Motion'', sample_trait)])
      [SetEventCacheSize 2,
       HandleEvents (single ''Motion'' (sample_event ''A'' ''sA'' 1)),
       HandleEvents (single ''Motion'' (sample_event ''B'' ''sB'' 2)),
       HandleEvents (single ''Motion'' (sample_event ''C'' ''sC'' 3)),
       GetMedia (event_id (sample_event ''B'' ''sB'' 2)),
       HandleEvents (single ''Motion'' (sample_event ''D'' ''sD'' 4))])
   = [(''B'', sample_event ''B'' ''sB'' 2), (''D'', sample_event ''D'' ''sD'' 4)]"
proof -
  have n: "''Motion'' \<in> fst ` set [(''Motion'', sample_trait)]" by simp
  have i: "distinct [event_id (sample_event ''A'' ''sA'' 1), event_id (sample_event ''B'' ''sB'' 2),
      event_id (sample_event ''C'' ''sC'' 3), event_id (sample_event ''D'' ''sD'' 4)]"
    by (simp add: sample_event_def)
  from n i lru_example[OF n n n n i] show ?thesis by (simp add: sample_event_def)
qed

text \<open>
  C2 as stated fails: the sessions A, B, C, D arrive with the event ids e1, e2, e3, e4.
  After A, B, C the cache holds B and C; get\_media called with the session identifier B finds
  nothing and touches nothing, and the ingestion of D evicts B, leaving C and D.
\<close>

theorem lru_by_session_counterexample:
  "map (\<lambda>p. event_session_id (snd p))
     (data (run (EventMediaManager [(''Motion'', sample_trait)])
        [SetEventCacheSize 2,
         HandleEvents (single ''Motion'' (sample_event ''e1'' ''A'' 1)),
         HandleEvents (single ''Motion'' (sample_event ''e2'' ''B'' 2)),
         HandleEvents (single ''Motion'' (sample_event ''e3'' ''C'' 3))])) = [''B'', ''C''] \<and>
   snd (get_media (run (EventMediaManager [(''Motion'', sample_trait)])
        [SetEventCacheSize 2,
         HandleEvents (single ''Motion'' (sample_event ''e1'' ''A'' 1)),
         HandleEvents (single ''Motion'' (sample_event ''e2'' ''B'' 2)),
         HandleEvents (single ''Motion'' (sample_event ''e3'' ''C'' 3))]) ''B'') = Inr None \<and>
   map (\<lambda>p. event_session_id (snd p))
     (data (run (EventMediaManager [(''Motion'', sample_trait)])
        [SetEventCacheSize 2,
         HandleEvents (single ''Motion'' (sample_event ''e1'' ''A'' 1)),
         HandleEvents (single ''Motion'' (sample_event ''e2'' ''B'' 2)),
         HandleEvents (single ''Motion'' (sample_event ''e3'' ''C'' 3)),
         GetMedia ''B'',
         HandleEvents (single ''Motion'' (sample_event ''e4'' ''D'' 4))])) = [''C'', ''D'']"
  by (simp add: eval_defs)

subsection \<open>Two messages for one key\<close>




text \<open>
  C6 (as amended). For a message with one event under an event name of the device and
  event\_cache\_size at least 1: an event with a new key ends up in the most recent position
  of the cache; an event whose key is already cached replaces the stored value where it
  stands, and the order of the keys is unchanged (the cache being within its bound).
\<close>

theorem ingest_position:
  assumes n: "n \<in> fst ` set (event_trait_map m)"
    and big: "1 \<le> event_cache_size (cache_policy m)"
  shows "(event_id ev \<notin> fst ` set (data m) \<longrightarrow>
            data (fst (async_handle_events m (single n ev))) \<noteq> [] \<and>
            last (data (fst (async_handle_events m (single n ev)))) = (event_id ev, ev)) \<and>
         (event_id ev \<in> fst ` set (data m) \<and> within_bound m \<longrightarrow>
            map fst (data (fst (async_handle_events m (single n ev)))) = map fst (data m) \<and>
            map_of (data (fst (async_handle_events m (single n ev)))) (event_id ev) = Some ev)"
proof (intro conjI impI)
  assume new: "event_id ev \<notin> fst ` set (data m)"
  from ingest_new[OF n new big] obtain pre where
    pre: "data (fst (async_handle_events m (single n ev))) = pre @ [(event_id ev, ev)]"
    by blast
  show "data (fst (async_handle_events m (single n ev))) \<noteq> []"
    unfolding pre by simp
  show "last (data (fst (async_handle_events m (single n ev)))) = (event_id ev, ev)"
    unfolding pre by simp
next
  assume old: "event_id ev \<in> fst ` set (data m) \<and> within_bound m"
  then have d: "data (fst (async_handle_events m (single n ev)))
      = setitem (event_id ev) ev (data m)"
    by (simp add: ingest_existing[OF n])
  from old show "map fst (data (fst (async_handle_events m (single n ev)))) = map fst (data m)"
    unfolding d by (simp add: map_fst_setitem)
  show "map_of (data (fst (async_handle_events m (single n ev)))) (event_id ev) = Some ev"
    unfolding d by (rule map_of_setitem_same)
qed

theorem ingest_position_witness:
  "''Motion'' \<in> fst ` set (event_trait_map
      (run (EventMediaManager [(''Motion'', sample_trait)])
        [HandleEvents (single ''Motion'' (sample_event ''A'' ''sA'' 1)),
         HandleEvents (single ''Motion'' (sample_event ''B'' ''sB'' 2))])) \<and>
   1 \<le> event_cache_size (cache_policy
      (run (EventMediaManager [(''Motion'', sample_trait)])
        [HandleEvents (single ''Motion'' (sample_event ''A'' ''sA'' 1)),
         HandleEvents (single ''Motion'' (sample_event ''B'' ''sB'' 2))])) \<and>
   event_id (sample_event ''A'' ''sA'' 7) \<in> fst ` set (data
      (run (EventMediaManager [(''Motion'', sample_trait)])
        [HandleEvents (single ''Motion'' (sample_event ''A'' ''sA'' 1)),
         HandleEvents (single ''Motion'' (sample_event ''B'' ''sB'' 2))])) \<and>
   within_bound
      (run (EventMediaManager [(''Motion'', sample_trait)])
        [HandleEvents (single ''Motion'' (sample_event ''A'' ''sA'' 1)),
         HandleEvents (single ''Motion'' (sample_event ''B'' ''sB'' 2))]) \<and>
   map fst (data (fst (async_handle_events
      (run (EventMediaManager [(''Motion'', sample_trait)])
        [HandleEvents (single ''Motion'' (sample_event ''A'' ''sA'' 1)),
         HandleEvents (single ''Motion'' (sample_event ''B'' ''sB'' 2))])
      (single ''Motion'' (sample_event ''A'' ''sA'' 7))))) = [''A'', ''B''] \<and>
   event_id (sample_event ''C'' ''sC'' 3) \<notin> fst ` set (data
      (run (EventMediaManager [(''Motion'', sample_trait)])
        [HandleEvents (single ''Motion'' (sample_event ''A'' ''sA'' 1)),
         HandleEvents (single ''Motion'' (sample_event ''B'' ''sB'' 2))])) \<and>
   last (data (fst (async_handle_events
      (run (EventMediaManager [(''Motion'', sample_trait)])
        [HandleEvents (single ''Motion'' (sample_event ''A'' ''sA'' 1)),
         HandleEvents (single ''Motion'' (sample_event ''B'' ''sB'' 2))])
      (single ''Motion'' (sample_event ''C'' ''sC'' 3)))))
     = (''C'', sample_event ''C'' ''sC'' 3)"
proof -
  define m where "m = run (EventMediaManager [(''Motion'', sample_trait)])
        [HandleEvents (single ''Motion'' (sample_event ''A'' ''sA'' 1)),
         HandleEvents (single ''Motion'' (sample_event ''B'' ''sB'' 2))]"
  have n: "''Motion'' \<in> fst ` set (event_trait_map m)"
    by (simp add: m_def eval_defs)
  have b: "1 \<le> event_cache_size (cache_policy m)"
    by (simp add: m_def eval_defs)
  have d: "map fst (data m) = [''A'', ''B'']"
    by (simp add: m_def eval_defs)
  have w: "within_bound m"
    by (simp add: m_def eval_defs)
  have old: "event_id (sample_event ''A'' ''sA'' 7) \<in> fst ` set (data m)"
    using d by (simp add: sample_event_def flip: set_map)
  have new: "event_id (sample_event ''C'' ''sC'' 3) \<notin> fst ` set (data m)"
    using d by (simp add: sample_event_def flip: set_map)
  from n b d w old new
    ingest_position[OF n b, of "sample_event ''A'' ''sA'' 7"]
    ingest_position[OF n b, of "sample_event ''C'' ''sC'' 3"]
  show ?thesis unfolding m_def[symmetric] by (simp add: sample_event_def)
qed

text \<open>
  C6 as stated fails for a merge: with A and B cached in this order, a second event with
  key A leaves A in the oldest position.
\<close>

theorem merge_position_counterexample:
  "map fst (data (run (EventMediaManager [(''Motion'', sample_trait)])
        [HandleEvents (single ''Motion'' (sample_event ''A'' ''sA'' 1)),
         HandleEvents (single ''Motion'' (sample_event ''B'' ''sB'' 2))])) = [''A'', ''B''] \<and>
   data (run (EventMediaManager [(''Motion'', sample_trait)])
        [HandleEvents (single ''Motion'' (sample_event ''A'' ''sA'' 1)),
         HandleEvents (single ''Motion'' (sample_event ''B'' ''sB'' 2)),
         HandleEvents (single ''Motion'' (sample_event ''A'' ''sA'' 7))])
     = [(''A'', sample_event ''A'' ''sA'' 7), (''B'', sample_event ''B'' ''sB'' 2)] \<and>
   last (data (run (EventMediaManager [(''Motion'', sample_trait)])
        [HandleEvents (single ''Motion'' (sample_event ''A'' ''sA'' 1)),
         HandleEvents (single ''Motion'' (sample_event ''B'' ''sB'' 2)),
         HandleEvents (single ''Motion'' (sample_event ''A'' ''sA'' 7))]))
     \<noteq> (''A'', sample_event ''A'' ''sA'' 7)"
  by (simp add: eval_defs)

subsection \<open>Events that have expired on arrival\<close>

lemma map_setitem_same:
  "map_of d k = Some v \<Longrightarrow> f v' = f v \<Longrightarrow>
   map (\<lambda>p. f (snd p)) (setitem k v' d) = map (\<lambda>p. f (snd p)) d"
  by (induction d) (auto split: if_splits)

lemma handle_one_requests:
  "fetch_log (fst (handle_one m n ev)) = fetch_log m"
proof (cases "map_of (event_trait_map m) n")
  case None
  then show ?thesis by (simp add: handle_one_skip)
next
  case (Some t)
  have "image_requests (handle_event t ev) = image_requests t" by (simp add: handle_event_def)
  from map_setitem_same[OF Some, of image_requests, OF this] Some
  show ?thesis by (simp add: handle_one_store fetch_log_def)
qed

lemma handle_loop_requests:
  "fetch_log (fst (handle_loop m evs)) = fetch_log m"
proof (induction evs arbitrary: m)
  case Nil
  show ?case by simp
next
  case (Cons p evs)
  obtain n ev where p: "p = (n, ev)" by (cases p)
  obtain m' r where h: "handle_one m n ev = (m', r)" by (cases "handle_one m n ev")
  with handle_one_ok[of m n ev] have r: "r = Inr ()" by simp
  from h handle_one_requests[of m n ev]
  have "fetch_log m' = fetch_log m" by simp
  with Cons[of m'] p h r show ?case by simp
qed

text \<open>
  C4 (as amended). An event that is already expired when it arrives under an event name of
  the device is stored in the cache (the cache being within its bound, event\_cache\_size at
  least 1) and no generator is asked for an image during its ingestion. A later get\_media
  for a cached event asks the generator without regard to expiry: it returns absent when the
  generator yields no image, and the media when the generator yields an image whose contents
  can be read. What ingestion does with the prefetch flag for an unexpired event is left
  out.
\<close>

theorem expired_event_cached_not_fetched:
  "(is_expired now ev \<and> n \<in> fst ` set (event_trait_map m) \<and>
    1 \<le> event_cache_size (cache_policy m) \<and> within_bound m \<longrightarrow>
      fetch_log (fst (async_handle_events m (single n ev))) = fetch_log m \<and>
      map_of (data (fst (async_handle_events m (single n ev)))) (event_id ev) = Some ev) \<and>
   (\<forall>e g. map_of (data m) k = Some e \<and> map_of (event_trait_map m) (event_type e) = Some g \<longrightarrow>
      (image_for g e = Inr None \<longrightarrow> snd (get_media m k) = Inr None) \<and>
      (\<forall>img c. image_for g e = Inr (Some img) \<and> fetch_contents img = Inr c \<longrightarrow>
         snd (get_media m k) =
           Inr (Some (EventMedia k (event_type e) (timestamp e)
                  \<lparr>contents = c, event_image_type = image_type img\<rparr>))))"
proof (intro conjI impI allI)
  assume a: "is_expired now ev \<and> n \<in> fst ` set (event_trait_map m) \<and>
    1 \<le> event_cache_size (cache_policy m) \<and> within_bound m"
  show "fetch_log (fst (async_handle_events m (single n ev))) = fetch_log m"
    by (simp add: async_handle_events_loop handle_loop_requests split: option.splits)
  from a show "map_of (data (fst (async_handle_events m (single n ev)))) (event_id ev) = Some ev"
    by (simp add: ingested_present)
next
  fix e g
  assume a: "map_of (data m) k = Some e \<and> map_of (event_trait_map m) (event_type e) = Some g"
  { assume "image_for g e = Inr None"
    with a show "snd (get_media m k) = Inr None" by (simp add: get_media_result) }
  { fix img c
    assume "image_for g e = Inr (Some img) \<and> fetch_contents img = Inr c"
    with a show "snd (get_media m k) =
           Inr (Some (EventMedia k (event_type e) (timestamp e)
                  \<lparr>contents = c, event_image_type = image_type img\<rparr>))"
      by (simp add: get_media_result) }
qed

theorem expired_event_cached_not_fetched_witness:
  "''Motion'' \<in> fst ` set (event_trait_map
      (run (EventMediaManager [(''Motion'', sample_trait)]) [SetPrefetch True])) \<and>
   1 \<le> event_cache_size (cache_policy
      (run (EventMediaManager [(''Motion'', sample_trait)]) [SetPrefetch True])) \<and>
   within_bound (run (EventMediaManager [(''Motion'', sample_trait)]) [SetPrefetch True]) \<and>
   is_expired 100 (sample_event ''B'' ''sB'' 1) \<and>
   fetch_log (fst (async_handle_events
      (run (EventMediaManager [(''Motion'', sample_trait)]) [SetPrefetch True])
      (single ''Motion'' (sample_event ''B'' ''sB'' 1)))) = [[]] \<and>
   map_of (data (fst (async_handle_events
      (run (EventMediaManager [(''Motion'', sample_trait)]) [SetPrefetch True])
      (single ''Motion'' (sample_event ''B'' ''sB'' 1))))) ''B''
     = Some (sample_event ''B'' ''sB'' 1) \<and>
   snd (get_media (fst (async_handle_events
      (run (EventMediaManager [(''Motion'', sample_trait)]) [SetPrefetch True])
      (single ''Motion'' (sample_event ''B'' ''sB'' 1)))) ''B'')
     = Inr (Some (EventMedia ''B'' ''Motion'' 1
              \<lparr>contents = ''image-bytes-1'', event_image_type = IMAGE\<rparr>))"
proof -
  define m where "m = run (EventMediaManager [(''Motion'', sample_trait)]) [SetPrefetch True]"
  define m' where "m' = fst (async_handle_events m (single ''Motion'' (sample_event ''B'' ''sB'' 1)))"
  define g where "g = handle_event sample_trait (sample_event ''B'' ''sB'' 1)"
  define img where "img = \<lparr>image_type = IMAGE, fetch_contents = Inr ''image-bytes-1''\<rparr>"
  have n: "''Motion'' \<in> fst ` set (event_trait_map m)" by (simp add: m_def eval_defs)
  have b: "1 \<le> event_cache_size (cache_policy m)" by (simp add: m_def eval_defs)
  have w: "within_bound m" by (simp add: m_def eval_defs)
  have x: "is_expired 100 (sample_event ''B'' ''sB'' 1)"
    by (simp add: is_expired_def sample_event_def)
  have l: "fetch_log m = [[]]" by (simp add: m_def eval_defs fetch_log_def)
  have i: "event_id (sample_event ''B'' ''sB'' 1) = ''B''" by (simp add: sample_event_def)
  have both: "fetch_log m' = fetch_log m \<and> map_of (data m') ''B'' = Some (sample_event ''B'' ''sB'' 1)"
    using expired_event_cached_not_fetched[where m = m and n = "''Motion''"
        and ev = "sample_event ''B'' ''sB'' 1" and now = 100] n b w x
    unfolding m'_def i by blast
  then have log: "fetch_log m' = [[]]" and cached: "map_of (data m') ''B'' = Some (sample_event ''B'' ''sB'' 1)"
    using l by simp_all
  have t: "map_of (event_trait_map m') (event_type (sample_event ''B'' ''sB'' 1)) = Some g"
    by (simp add: m'_def m_def g_def eval_defs)
  have im: "image_for g (sample_event ''B'' ''sB'' 1) = Inr (Some img) \<and>
      fetch_contents img = Inr ''image-bytes-1''"
    by (simp add: g_def img_def handle_event_def sample_trait_def)
  have "snd (get_media m' ''B'') =
      Inr (Some (EventMedia ''B'' (event_type (sample_event ''B'' ''sB'' 1))
         (timestamp (sample_event ''B'' ''sB'' 1))
         \<lparr>contents = ''image-bytes-1'', event_image_type = image_type img\<rparr>))"
    using expired_event_cached_not_fetched[where m = m' and k = "''B''"] cached t im by blast
  then have r: "snd (get_media m' ''B'') =
      Inr (Some (EventMedia ''B'' ''Motion'' 1
              \<lparr>contents = ''image-bytes-1'', event_image_type = IMAGE\<rparr>))"
    by (simp add: sample_event_def img_def)
  from n b w x log cached r show ?thesis
    unfolding m'_def m_def by blast
qed

text \<open>
  C4 as stated fails: an event that is already expired when it arrives at time 100 is
  ingested and cached; a later get\_media for it does not return absent, it returns the media
  that the generator yields.
\<close>

theorem expired_get_media_counterexample:
  "is_expired 100 (sample_event ''B'' ''sB'' 1) \<and>
   map_of (data (run (EventMediaManager [(''Motion'', sample_trait)])
        [SetPrefetch True,
         HandleEvents (single ''Motion'' (sample_event ''B'' ''sB'' 1))])) ''B''
     = Some (sample_event ''B'' ''sB'' 1) \<and>
   snd (get_media
     (run (EventMediaManager [(''Motion'', sample_trait)])
        [SetPrefetch True,
         HandleEvents (single ''Motion'' (sample_event ''B'' ''sB'' 1))]) ''B'')
     = Inr (Some (EventMedia ''B'' ''Motion'' 1
              \<lparr>contents = ''image-bytes-1'', event_image_type = IMAGE\<rparr>))"
  by (simp add: eval_defs is_expired_def)

subsection \<open>Requests for media\<close>

text \<open>
  C5 (as amended). For a cached event whose event type has no entry in the trait map,
  get\_media returns absent; for a cached event whose trait is in the map and whose generator
  raises an error (such as the lack of media support), get\_media raises that error.
\<close>

theorem get_media_without_trait:
  assumes "map_of (data m) k = Some ev"
  shows "(map_of (event_trait_map m) (event_type ev) = None \<longrightarrow>
            snd (get_media m k) = Inr None) \<and>
         (\<forall>g err. map_of (event_trait_map m) (event_type ev) = Some g \<and> image_for g ev = Inl err
            \<longrightarrow> snd (get_media m k) = Inl err)"
  by (simp add: get_media_result[OF assms])

theorem get_media_without_trait_witness:
  "map_of (data (run (EventMediaManager [(''Motion'', unsupported_trait)])
       [HandleEvents (single ''Motion'' (sample_event ''A'' ''sA'' 1))])) ''A''
     = Some (sample_event ''A'' ''sA'' 1) \<and>
   map_of (event_trait_map (run (EventMediaManager [(''Motion'', unsupported_trait)])
       [HandleEvents (single ''Motion'' (sample_event ''A'' ''sA'' 1))]))
       (event_type (sample_event ''A'' ''sA'' 1))
     = Some (handle_event unsupported_trait (sample_event ''A'' ''sA'' 1)) \<and>
   image_for (handle_event unsupported_trait (sample_event ''A'' ''sA'' 1))
       (sample_event ''A'' ''sA'' 1) = Inl (ValueError ''Camera does not have trait'') \<and>
   snd (get_media (run (EventMediaManager [(''Motion'', unsupported_trait)])
       [HandleEvents (single ''Motion'' (sample_event ''A'' ''sA'' 1))]) ''A'')
     = Inl (ValueError ''Camera does not have trait'') \<and>
   map_of (data \<lparr>event_trait_map = [], cache_policy = CachePolicy,
                 data = [(''B'', sample_event ''B'' ''sB'' 2)]\<rparr>) ''B''
     = Some (sample_event ''B'' ''sB'' 2) \<and>
   map_of (event_trait_map \<lparr>event_trait_map = [], cache_policy = CachePolicy,
                 data = [(''B'', sample_event ''B'' ''sB'' 2)]\<rparr>)
       (event_type (sample_event ''B'' ''sB'' 2)) = None \<and>
   snd (get_media \<lparr>event_trait_map = [], cache_policy = CachePolicy,
                 data = [(''B'', sample_event ''B'' ''sB'' 2)]\<rparr> ''B'') = Inr None"
proof -
  define m where "m = run (EventMediaManager [(''Motion'', unsupported_trait)])
       [HandleEvents (single ''Motion'' (sample_event ''A'' ''sA'' 1))]"
  define m' where "m' = \<lparr>event_trait_map = [], cache_policy = CachePolicy,
                 data = [(''B'', sample_event ''B'' ''sB'' 2)]\<rparr>"
  have d: "map_of (data m) ''A'' = Some (sample_event ''A'' ''sA'' 1)"
    by (simp add: m_def eval_defs unsupported_trait_def)
  have t: "map_of (event_trait_map m) (event_type (sample_event ''A'' ''sA'' 1))
      = Some (handle_event unsupported_trait (sample_event ''A'' ''sA'' 1))"
    by (simp add: m_def eval_defs unsupported_trait_def)
  have i: "image_for (handle_event unsupported_trait (sample_event ''A'' ''sA'' 1))
       (sample_event ''A'' ''sA'' 1) = Inl (ValueError ''Camera does not have trait'')"
    by (simp add: handle_event_def unsupported_trait_def)
  have d': "map_of (data m') ''B'' = Some (sample_event ''B'' ''sB'' 2)"
    by (simp add: m'_def)
  have t': "map_of (event_trait_map m') (event_type (sample_event ''B'' ''sB'' 2)) = None"
    by (simp add: m'_def)
  from d t i d' t' get_media_without_trait[OF d] get_media_without_trait[OF d']
  show ?thesis
    unfolding m_def[symmetric] m'_def[symmetric] by blast
qed

text \<open>
  C5 as stated fails: an event delivered under the event name Motion whose own event type
  is Chime is cached; the device has no trait for Chime, and get\_media returns absent
  instead of raising.
\<close>

theorem get_media_without_trait_counterexample:
  "map_of (data (run (EventMediaManager [(''Motion'', sample_trait)])
       [HandleEvents (single ''Motion'' ((sample_event ''A'' ''sA'' 1)\<lparr>event_type := ''Chime''\<rparr>))]))
       ''A''
     = Some ((sample_event ''A'' ''sA'' 1)\<lparr>event_type := ''Chime''\<rparr>) \<and>
   map_of (event_trait_map (run (EventMediaManager [(''Motion'', sample_trait)])
       [HandleEvents (single ''Motion'' ((sample_event ''A'' ''sA'' 1)\<lparr>event_type := ''Chime''\<rparr>))]))
       ''Chime'' = None \<and>
   snd (get_media (run (EventMediaManager [(''Motion'', sample_trait)])
       [HandleEvents (single ''Motion'' ((sample_event ''A'' ''sA'' 1)\<lparr>event_type := ''Chime''\<rparr>))])
       ''A'') = Inr None"
  by (simp add: eval_defs)

lemma filter_key_distinct:
  "distinct (map fst d) \<Longrightarrow> map_of d k = Some v \<Longrightarrow> filter (\<lambda>p. fst p = k) d = [(k, v)]"
proof (induction d)
  case Nil
  then show ?case by simp
next
  case (Cons p d)
  obtain k' v' where p: "p = (k', v')" by (cases p)
  show ?case
  proof (cases "k' = k")
    case True
    with Cons.prems p have "v' = v" and "k \<notin> fst ` set d" by auto
    then have "filter (\<lambda>p. fst p = k) d = []" by (auto simp: filter_empty_conv)
    with True p \<open>v' = v\<close> show ?thesis by simp
  next
    case False
    with Cons p show ?thesis by simp
  qed
qed

lemma mset_move_to_end:
  assumes "distinct (map fst d)" and "map_of d k = Some v"
  shows "mset (filter (\<lambda>p. fst p \<noteq> k) d @ [(k, v)]) = mset d"
proof -
  have "mset d = mset (filter (\<lambda>p. fst p = k) d) + mset (filter (\<lambda>p. \<not> fst p = k) d)"
    by simp
  also have "\<dots> = mset [(k, v)] + mset (filter (\<lambda>p. fst p \<noteq> k) d)"
    by (simp add: filter_key_distinct[OF assms])
  finally show ?thesis by simp
qed

text \<open>
  C7 (as amended). When the generator or the download of the contents fails for a cached
  event, get\_media raises that error; the policy is unchanged and the cache holds the same
  entries with the same values (keys being distinct), but the requested entry has been moved
  to the most recent position before the fetch.
\<close>

theorem get_media_fetch_failure:
  assumes ev: "map_of (data m) k = Some ev"
    and g: "map_of (event_trait_map m) (event_type ev) = Some g"
    and fails: "image_for g ev = Inl err \<or>
       (\<exists>img. image_for g ev = Inr (Some img) \<and> fetch_contents img = Inl err)"
  shows "snd (get_media m k) = Inl err \<and>
         data (fst (get_media m k)) = filter (\<lambda>p. fst p \<noteq> k) (data m) @ [(k, ev)] \<and>
         cache_policy (fst (get_media m k)) = cache_policy m \<and>
         (distinct (map fst (data m)) \<longrightarrow>
            mset (data (fst (get_media m k))) = mset (data m))"
proof (intro conjI impI)
  from fails g show "snd (get_media m k) = Inl err"
    by (auto simp: get_media_result[OF ev])
  show "data (fst (get_media m k)) = filter (\<lambda>p. fst p \<noteq> k) (data m) @ [(k, ev)]"
    by (rule get_media_data[OF ev])
  show "cache_policy (fst (get_media m k)) = cache_policy m"
    by (rule get_media_policy)
  assume "distinct (map fst (data m))"
  then show "mset (data (fst (get_media m k))) = mset (data m)"
    unfolding get_media_data[OF ev] using ev by (rule mset_move_to_end)
qed

theorem get_media_fetch_failure_witness:
  "map_of (data (run (EventMediaManager [(''Motion'', failing_trait)])
       [HandleEvents (single ''Motion'' (sample_event ''A'' ''sA'' 1)),
        HandleEvents (single ''Motion'' (sample_event ''B'' ''sB'' 2))])) ''A''
     = Some (sample_event ''A'' ''sA'' 1) \<and>
   distinct (map fst (data (run (EventMediaManager [(''Motion'', failing_trait)])
       [HandleEvents (single ''Motion'' (sample_event ''A'' ''sA'' 1)),
        HandleEvents (single ''Motion'' (sample_event ''B'' ''sB'' 2))]))) \<and>
   snd (get_media (run (EventMediaManager [(''Motion'', failing_trait)])
       [HandleEvents (single ''Motion'' (sample_event ''A'' ''sA'' 1)),
        HandleEvents (single ''Motion'' (sample_event ''B'' ''sB'' 2))]) ''A'')
     = Inl TransportError \<and>
   mset (data (fst (get_media (run (EventMediaManager [(''Motion'', failing_trait)])
       [HandleEvents (single ''Motion'' (sample_event ''A'' ''sA'' 1)),
        HandleEvents (single ''Motion'' (sample_event ''B'' ''sB'' 2))]) ''A'')))
     = mset (data (run (EventMediaManager [(''Motion'', failing_trait)])
       [HandleEvents (single ''Motion'' (sample_event ''A'' ''sA'' 1)),
        HandleEvents (single ''Motion'' (sample_event ''B'' ''sB'' 2))]))"
proof -
  define m where "m = run (EventMediaManager [(''Motion'', failing_trait)])
       [HandleEvents (single ''Motion'' (sample_event ''A'' ''sA'' 1)),
        HandleEvents (single ''Motion'' (sample_event ''B'' ''sB'' 2))]"
  define g where "g = handle_event failing_trait (sample_event ''B'' ''sB'' 2)"
  have d: "map_of (data m) ''A'' = Some (sample_event ''A'' ''sA'' 1)"
    by (simp add: m_def eval_defs failing_trait_def)
  have t: "map_of (event_trait_map m) (event_type (sample_event ''A'' ''sA'' 1)) = Some g"
    by (simp add: m_def g_def eval_defs failing_trait_def)
  have f: "image_for g (sample_event ''A'' ''sA'' 1) = Inl TransportError \<or>
       (\<exists>img. image_for g (sample_event ''A'' ''sA'' 1) = Inr (Some img) \<and>
          fetch_contents img = Inl TransportError)"
    by (simp add: g_def handle_event_def failing_trait_def)
  have dist: "distinct (map fst (data m))"
    by (simp add: m_def eval_defs failing_trait_def)
  from d dist get_media_fetch_failure[OF d t f] show ?thesis
    unfolding m_def[symmetric] by blast
qed

text \<open>
  C7 as stated fails: with A and B cached in this order, get\_media for A fails with a
  transport error and leaves the cache in the order B, A.
\<close>

theorem get_media_fetch_failure_counterexample:
  "snd (get_media (run (EventMediaManager [(''Motion'', failing_trait)])
       [HandleEvents (single ''Motion'' (sample_event ''A'' ''sA'' 1)),
        HandleEvents (single ''Motion'' (sample_event ''B'' ''sB'' 2))]) ''A'')
     = Inl TransportError \<and>
   data (run (EventMediaManager [(''Motion'', failing_trait)])
       [HandleEvents (single ''Motion'' (sample_event ''A'' ''sA'' 1)),
        HandleEvents (single ''Motion'' (sample_event ''B'' ''sB'' 2))])
     = [(''A'', sample_event ''A'' ''sA'' 1), (''B'', sample_event ''B'' ''sB'' 2)] \<and>
   data (fst (get_media (run (EventMediaManager [(''Motion'', failing_trait)])
       [HandleEvents (single ''Motion'' (sample_event ''A'' ''sA'' 1)),
        HandleEvents (single ''Motion'' (sample_event ''B'' ''sB'' 2))]) ''A''))
     = [(''B'', sample_event ''B'' ''sB'' 2), (''A'', sample_event ''A'' ''sA'' 1)]"
  by (simp add: eval_defs failing_trait_def)

subsection \<open>Events of traits the device does not have\<close>

lemma handle_loop_filter:
  "fst ` set (event_trait_map m) = K \<Longrightarrow>
   handle_loop m evs = handle_loop m (filter (\<lambda>(n, ev). n \<in> K) evs)"
proof (induction evs arbitrary: m)
  case Nil
  show ?case by simp
next
  case (Cons p evs)
  obtain n ev where p: "p = (n, ev)" by (cases p)
  show ?case
  proof (cases "n \<in> K")
    case False
    with Cons.prems have "map_of (event_trait_map m) n = None"
      by (simp add: map_of_eq_None_iff)
    then have "handle_one m n ev = (m, Inr ())" by (rule handle_one_skip)
    with False p Cons show ?thesis by simp
  next
    case True
    obtain m' r where h: "handle_one m n ev = (m', r)" by (cases "handle_one m n ev")
    with handle_one_ok[of m n ev] have r: "r = Inr ()" by simp
    from h handle_one_keys[of m n ev]
    have "map fst (event_trait_map m') = map fst (event_trait_map m)" by simp
    then have "set (map fst (event_trait_map m')) = set (map fst (event_trait_map m))"
      by simp
    with Cons.prems have "fst ` set (event_trait_map m') = K" by simp
    from Cons.IH[OF this] True p h r show ?thesis by simp
  qed
qed

text \<open>
  C8 (as amended). Ingestion never raises. An event delivered under an event name that is
  not a key of the trait map is skipped: handling a message is handling the message without
  such events, and a message with only such an event leaves the manager as it was, so the
  event is not inserted into the cache.
\<close>

theorem unknown_trait_skipped:
  "snd (async_handle_events m msg) = Inr () \<and>
   (resource_update_events msg = Some evs \<longrightarrow>
      async_handle_events m msg =
      async_handle_events m
        \<lparr>resource_update_events =
           Some (filter (\<lambda>(n, ev). n \<in> fst ` set (event_trait_map m)) evs)\<rparr>) \<and>
   (n \<notin> fst ` set (event_trait_map m) \<longrightarrow> async_handle_events m (single n ev) = (m, Inr ()))"
proof (intro conjI impI)
  show "snd (async_handle_events m msg) = Inr ()" by (rule async_handle_events_ok)
  { assume "resource_update_events msg = Some evs"
    then show "async_handle_events m msg =
      async_handle_events m
        \<lparr>resource_update_events =
           Some (filter (\<lambda>(n, ev). n \<in> fst ` set (event_trait_map m)) evs)\<rparr>"
      using handle_loop_filter[OF refl, of m evs] by (simp add: async_handle_events_loop) }
  { assume "n \<notin> fst ` set (event_trait_map m)"
    then have "map_of (event_trait_map m) n = None" by (simp add: map_of_eq_None_iff)
    then show "async_handle_events m (single n ev) = (m, Inr ())"
      by (simp add: async_handle_events_def single_def handle_one_skip) }
qed

theorem unknown_trait_skipped_witness:
  "''Chime'' \<notin> fst ` set (event_trait_map (EventMediaManager [(''Motion'', sample_trait)])) \<and>
   async_handle_events (EventMediaManager [(''Motion'', sample_trait)])
      (single ''Chime'' (sample_event ''A'' ''sA'' 1))
     = (EventMediaManager [(''Motion'', sample_trait)], Inr ()) \<and>
   async_handle_events (EventMediaManager [(''Motion'', sample_trait)])
      \<lparr>resource_update_events =
         Some [(''Chime'', sample_event ''A'' ''sA'' 1), (''Motion'', sample_event ''B'' ''sB'' 2)]\<rparr>
     = async_handle_events (EventMediaManager [(''Motion'', sample_trait)])
      \<lparr>resource_update_events = Some [(''Motion'', sample_event ''B'' ''sB'' 2)]\<rparr>"
proof -
  have n: "''Chime'' \<notin> fst ` set (event_trait_map (EventMediaManager [(''Motion'', sample_trait)]))"
    by (simp add: EventMediaManager_def)
  have f: "filter (\<lambda>(n, ev). n \<in> fst ` set (event_trait_map
              (EventMediaManager [(''Motion'', sample_trait)])))
        [(''Chime'', sample_event ''A'' ''sA'' 1), (''Motion'', sample_event ''B'' ''sB'' 2)]
      = [(''Motion'', sample_event ''B'' ''sB'' 2)]"
    by (simp add: EventMediaManager_def)
  have r: "resource_update_events \<lparr>resource_update_events =
         Some [(''Chime'', sample_event ''A'' ''sA'' 1), (''Motion'', sample_event ''B'' ''sB'' 2)]\<rparr>
      = Some [(''Chime'', sample_event ''A'' ''sA'' 1), (''Motion'', sample_event ''B'' ''sB'' 2)]"
    by simp
  from n unknown_trait_skipped[of "EventMediaManager [(''Motion'', sample_trait)]"
      "\<lparr>resource_update_events =
         Some [(''Chime'', sample_event ''A'' ''sA'' 1), (''Motion'', sample_event ''B'' ''sB'' 2)]\<rparr>"
      "[(''Chime'', sample_event ''A'' ''sA'' 1), (''Motion'', sample_event ''B'' ''sB'' 2)]"
      "''Chime''" "sample_event ''A'' ''sA'' 1"]
  show ?thesis unfolding f using r by blast
qed

text \<open>
  C8 as stated fails: an event delivered under the event name Chime to a device with the
  trait Motion only is not inserted; the cache and the listing of events stay empty.
\<close>

theorem unknown_trait_counterexample:
  "''Chime'' \<notin> fst ` set (event_trait_map (EventMediaManager [(''Motion'', sample_trait)])) \<and>
   data (fst (async_handle_events (EventMediaManager [(''Motion'', sample_trait)])
      (single ''Chime'' (sample_event ''A'' ''sA'' 1)))) = [] \<and>
   events (fst (async_handle_events (EventMediaManager [(''Motion'', sample_trait)])
      (single ''Chime'' (sample_event ''A'' ''sA'' 1)))) = []"
  by (simp add: eval_defs events_def)

subsection \<open>The trait with the active event\<close>

lemma pick_inactive: "active_event now t = None \<Longrightarrow> pick_trait now acc t = acc"
  by (simp add: pick_trait_def)

lemma active_is_last: "active_event now t = Some ev \<Longrightarrow> last_event t = Some ev"
  by (auto simp: active_event_def split: option.splits if_splits)

lemma pick_first_active: "active_event now t = Some ev \<Longrightarrow> pick_trait now None t = Some t"
  by (simp add: pick_trait_def)

lemma pick_next_active:
  "active_event now t = Some ev \<Longrightarrow> active_event now r = Some ev' \<Longrightarrow>
   pick_trait now (Some r) t = (if expires_at ev > expires_at ev' then Some t else Some r)"
  by (simp add: pick_trait_def active_is_last)

lemma fold_pick_Some:
  "active_event now r = Some ev \<Longrightarrow>
   \<exists>r' ev'. foldl (pick_trait now) (Some r) ts = Some r' \<and> (r' = r \<or> r' \<in> set ts) \<and>
      active_event now r' = Some ev' \<and> expires_at ev \<le> expires_at ev' \<and>
      (\<forall>t\<in>set ts. \<forall>e. active_event now t = Some e \<longrightarrow> expires_at e \<le> expires_at ev')"
proof (induction ts arbitrary: r ev)
  case Nil
  then show ?case by simp
next
  case (Cons t ts)
  show ?case
  proof (cases "active_event now t")
    case None
    from Cons.IH[OF Cons.prems] None show ?thesis
      by (simp add: pick_inactive) blast
  next
    case (Some e)
    show ?thesis
    proof (cases "expires_at e > expires_at ev")
      case True
      from Cons.IH[OF Some] obtain r' ev' where
        "foldl (pick_trait now) (Some t) ts = Some r'" "r' = t \<or> r' \<in> set ts"
        "active_event now r' = Some ev'" "expires_at e \<le> expires_at ev'"
        "\<forall>t\<in>set ts. \<forall>e. active_event now t = Some e \<longrightarrow> expires_at e \<le> expires_at ev'"
        by blast
      with True Some Cons.prems show ?thesis
        by (fastforce simp: pick_next_active[OF Some Cons.prems])
    next
      case False
      from Cons.IH[OF Cons.prems] obtain r' ev' where
        "foldl (pick_trait now) (Some r) ts = Some r'" "r' = r \<or> r' \<in> set ts"
        "active_event now r' = Some ev'" "expires_at ev \<le> expires_at ev'"
        "\<forall>t\<in>set ts. \<forall>e. active_event now t = Some e \<longrightarrow> expires_at e \<le> expires_at ev'"
        by blast
      with False Some Cons.prems show ?thesis
        by (fastforce simp: pick_next_active[OF Some Cons.prems])
    qed
  qed
qed

lemma fold_pick_None_inactive:
  "\<forall>t\<in>set ts. active_event now t = None \<Longrightarrow> foldl (pick_trait now) None ts = None"
  by (induction ts) (simp_all add: pick_inactive)

lemma fold_pick_None_active:
  "\<exists>t\<in>set ts. active_event now t \<noteq> None \<Longrightarrow>
   \<exists>r ev. foldl (pick_trait now) None ts = Some r \<and> r \<in> set ts \<and>
      active_event now r = Some ev \<and>
      (\<forall>t\<in>set ts. \<forall>e. active_event now t = Some e \<longrightarrow> expires_at e \<le> expires_at ev)"
proof (induction ts)
  case Nil
  then show ?case by simp
next
  case (Cons t ts)
  show ?case
  proof (cases "active_event now t")
    case None
    with Cons.prems have "\<exists>t\<in>set ts. active_event now t \<noteq> None" by auto
    from Cons.IH[OF this] None show ?thesis
      by (simp add: pick_inactive) blast
  next
    case (Some e)
    from fold_pick_Some[OF Some, of ts] Some show ?thesis
      by (fastforce simp: pick_first_active[OF Some])
  qed
qed

text \<open>
  C9. When no trait of the device has an active event, active\_event\_trait returns
  nothing. When some trait has one, it returns a trait of the device with an active event
  whose expiration instant is the latest among the active events of all traits.
\<close>

theorem active_event_trait_latest_expiry:
  "((\<forall>t\<in>set (map snd (event_trait_map m)). active_event now t = None) \<longrightarrow>
      active_event_trait now m = None) \<and>
   ((\<exists>t\<in>set (map snd (event_trait_map m)). active_event now t \<noteq> None) \<longrightarrow>
      (\<exists>r ev. active_event_trait now m = Some r \<and> r \<in> set (map snd (event_trait_map m)) \<and>
         active_event now r = Some ev \<and>
         (\<forall>t\<in>set (map snd (event_trait_map m)). \<forall>e.
            active_event now t = Some e \<longrightarrow> expires_at e \<le> expires_at ev)))"
  unfolding active_event_trait_def
  using fold_pick_None_inactive[of "map snd (event_trait_map m)" now]
    fold_pick_None_active[of "map snd (event_trait_map m)" now]
  by blast

lemmas trait_defs = sample_device_def motion_trait_def person_trait_def sample_trait_def
  sample_event_def EventMediaManager_def active_event_def is_expired_def
  active_event_trait_def pick_trait_def

theorem active_event_trait_latest_expiry_witness:
  "active_event 20 motion_trait = Some (sample_event ''A'' ''sA'' 10) \<and>
   active_event 20 person_trait = Some ((sample_event ''B'' ''sB'' 5)\<lparr>expires_at := 50\<rparr>) \<and>
   timestamp ((sample_event ''B'' ''sB'' 5)\<lparr>expires_at := 50\<rparr>) < timestamp (sample_event ''A'' ''sA'' 10) \<and>
   expires_at (sample_event ''A'' ''sA'' 10) < expires_at ((sample_event ''B'' ''sB'' 5)\<lparr>expires_at := 50\<rparr>) \<and>
   active_event_trait 20 sample_device = Some person_trait \<and>
   active_event 100 motion_trait = None \<and>
   active_event 100 person_trait = None \<and>
   active_event 100 sample_trait = None \<and>
   active_event_trait 100 sample_device = None"
proof -
  have a: "\<exists>t\<in>set (map snd (event_trait_map sample_device)). active_event 20 t \<noteq> None"
    by (simp add: trait_defs)
  have b: "\<forall>t\<in>set (map snd (event_trait_map sample_device)). active_event 100 t = None"
    by (simp add: trait_defs)
  have c: "active_event_trait 100 sample_device = None"
    using active_event_trait_latest_expiry[of sample_device 100] b by blast
  have d: "active_event_trait 20 sample_device \<noteq> None"
    using active_event_trait_latest_expiry[of sample_device 20] a by auto
  from c d show ?thesis by (simp add: trait_defs)
qed

end
